theory Spec2Isabelle
  imports Complex_Main "HOL-Library.Word"
begin

section \<open>JavaScript values\<close>

text \<open>
  A JavaScript string is a sequence of UTF-16 code units: \<open>length\<close> is its
  \<open>.length\<close> and \<open>take n\<close> is \<open>.slice(0, n)\<close>. \<open>js\<close> embeds an ASCII literal;
  other characters are written as their code units.
\<close>

type_synonym jsstring = "16 word list"

definition js :: "string \<Rightarrow> jsstring" where
  "js s = map of_char s"

text \<open>
  The values the two hosts handle: what \<open>JSON.parse\<close> and \<open>res.json()\<close> produce,
  and \<open>undefined\<close>, the value of an absent parameter or property. A number is a
  finite double, given by its exact value (\<open>0\<close> and \<open>-0\<close> are one value:
  both are falsy, equal under \<open>===\<close> and print as \<open>0\<close>). An object is its own
  properties in insertion order.
\<close>

datatype jsval =
    JUndefined
  | JNull
  | JBool bool
  | JNum real
  | JStr jsstring
  | JArr "jsval list"
  | JObj "(jsstring \<times> jsval) list"

text \<open>Truthiness, as \<open>if (v)\<close>, \<open>v && ...\<close> and \<open>v || ...\<close> read a value.\<close>

fun truthy :: "jsval \<Rightarrow> bool" where
  "truthy JUndefined = False"
| "truthy JNull = False"
| "truthy (JBool b) = b"
| "truthy (JNum r) = (r \<noteq> 0)"
| "truthy (JStr s) = (s \<noteq> [])"
| "truthy (JArr xs) = True"
| "truthy (JObj kvs) = True"

text \<open>\<open>typeof v === "object" && v !== null\<close>: arrays are objects too.\<close>

fun is_object :: "jsval \<Rightarrow> bool" where
  "is_object (JArr xs) = True"
| "is_object (JObj kvs) = True"
| "is_object v = False"

text \<open>\<open>v === null || v === undefined\<close>: reading a property of such a value throws.\<close>

fun nullish :: "jsval \<Rightarrow> bool" where
  "nullish JUndefined = True"
| "nullish JNull = True"
| "nullish v = False"

text \<open>\<open>k in obj\<close> and \<open>obj[k]\<close> on the properties of an object.\<close>

definition has_key :: "(jsstring \<times> jsval) list \<Rightarrow> jsstring \<Rightarrow> bool" where
  "has_key kvs k = (map_of kvs k \<noteq> None)"

definition field :: "(jsstring \<times> jsval) list \<Rightarrow> jsstring \<Rightarrow> jsval" where
  "field kvs k = (case map_of kvs k of None \<Rightarrow> JUndefined | Some v \<Rightarrow> v)"

text \<open>
  \<open>v[k]\<close> for a value that is not \<open>null\<close> or \<open>undefined\<close>. The names the hosts
  read (\<open>error\<close>, \<open>result\<close>, \<open>data\<close>, \<open>code\<close>, \<open>message\<close>, \<open>keyword\<close>,
  \<open>query\<close>, \<open>search_keyword\<close>, \<open>keywords\<close>) are not properties of arrays, strings,
  numbers or booleans, nor inherited from \<open>Object.prototype\<close>, so only an object's
  own properties answer.
\<close>

fun js_get :: "jsval \<Rightarrow> jsstring \<Rightarrow> jsval" where
  "js_get (JObj kvs) k = field kvs k"
| "js_get v k = JUndefined"

definition join :: "jsstring \<Rightarrow> jsstring list \<Rightarrow> jsstring" where
  "join sep xs = (case xs of [] \<Rightarrow> [] | y # ys \<Rightarrow> y @ concat (map (\<lambda>s. sep @ s) ys))"

section \<open>The runtime\<close>

text \<open>
  The builtins of the language the hosts call are parameters of the model:
  \<open>JSON.parse\<close> (\<open>None\<close> when it throws a SyntaxError), \<open>JSON.stringify(v)\<close>,
  \<open>JSON.stringify(v, null, 2)\<close>, the conversion of a number to a string, the message
  of the TypeError raised by reading a property of \<open>null\<close>, the message of the
  TypeError raised when an object cannot be converted to a primitive value, and
  the string form of the members every object inherits from \<open>Object.prototype\<close>
  (\<open>constructor\<close>, \<open>toString\<close>, ...), which a lookup in a table written as an
  object literal finds.
\<close>

record runtime =
  JSON_parse :: "jsstring \<Rightarrow> jsval option"
  JSON_stringify :: "jsval \<Rightarrow> jsstring"
  JSON_stringify_2 :: "jsval \<Rightarrow> jsstring"
  Number_toString :: "real \<Rightarrow> jsstring"
  null_read_message :: jsstring
  to_primitive_message :: jsstring
  inherited_member :: "jsstring \<Rightarrow> jsstring option"

text \<open>
  \<open>String(v)\<close>, the conversion a template literal \<open>`${v}`\<close> applies; \<open>None\<close> when it
  throws a TypeError. An object of JSON data prints as \<open>[object Object]\<close> through
  the \<open>toString\<close> it inherits; one that owns a \<open>toString\<close> key hides that method
  behind a value that cannot be called, and as \<open>valueOf\<close> gives no primitive
  either, the conversion throws. An array prints its elements joined by commas,
  \<open>null\<close> and \<open>undefined\<close> elements as the empty string, and throws when an
  element does.
\<close>

fun ToString :: "runtime \<Rightarrow> jsval \<Rightarrow> jsstring option" where
  "ToString rt JUndefined = Some (js ''undefined'')"
| "ToString rt JNull = Some (js ''null'')"
| "ToString rt (JBool b) = Some (if b then js ''true'' else js ''false'')"
| "ToString rt (JNum r) = Some (Number_toString rt r)"
| "ToString rt (JStr s) = Some s"
| "ToString rt (JArr xs) =
     map_option (join (js '',''))
       (those (map (\<lambda>x. if nullish x then Some [] else ToString rt x) xs))"
| "ToString rt (JObj kvs) =
     (if has_key kvs (js ''toString'') then None else Some (js ''[object Object]''))"

section \<open>The helpers of \<open>src/proxy/mcp-server.ts\<close>\<close>

text \<open>\<open>PLATFORM_NAMES\<close> (lines 404-415).\<close>

definition PLATFORM_NAMES :: "(jsstring \<times> jsstring) list" where
  "PLATFORM_NAMES =
    [(js ''douyin'', [0x6296, 0x97F3]),
     (js ''tiktok'', js ''TikTok''),
     (js ''xiaohongshu'', [0x5C0F, 0x7EA2, 0x4E66]),
     (js ''weibo'', [0x5FAE, 0x535A]),
     (js ''bilibili'', js ''B'' @ [0x7AD9]),
     (js ''instagram'', js ''Instagram''),
     (js ''youtube'', js ''YouTube''),
     (js ''twitter'', js ''Twitter''),
     (js ''kuaishou'', [0x5FEB, 0x624B]),
     (js ''reddit'', js ''Reddit'')]"

text \<open>
  \<open>extractPlatform\<close> (lines 417-420): \<open>toolName.split("_")[0]\<close> is the name up to
  its first underscore; the lookup answers with the table's label, else with an
  inherited member, else with \<open>undefined\<close> (\<open>None\<close>).
\<close>

definition extractPlatform :: "runtime \<Rightarrow> jsstring \<Rightarrow> jsstring option" where
  "extractPlatform rt toolName =
    (let prefix = takeWhile (\<lambda>c. c \<noteq> of_char CHR ''_'') toolName in
     case map_of PLATFORM_NAMES prefix of
       Some label \<Rightarrow> Some label
     | None \<Rightarrow> inherited_member rt prefix)"

text \<open>
  \<open>extractKeyword\<close> (lines 422-428): the first of the four keys whose value is a
  non-empty string. On \<open>null\<close> or \<open>undefined\<close> arguments the first read throws a
  TypeError (\<open>Inl ()\<close>).
\<close>

fun extractKeyword_loop :: "jsval \<Rightarrow> jsstring list \<Rightarrow> jsstring option" where
  "extractKeyword_loop args [] = None"
| "extractKeyword_loop args (key # keys) =
    (case js_get args key of
       JStr s \<Rightarrow> if s \<noteq> [] then Some s else extractKeyword_loop args keys
     | _ \<Rightarrow> extractKeyword_loop args keys)"

definition extractKeyword :: "jsval \<Rightarrow> unit + jsstring option" where
  "extractKeyword args =
    (if nullish args then Inl ()
     else Inr (extractKeyword_loop args
       [js ''keyword'', js ''query'', js ''search_keyword'', js ''keywords'']))"

text \<open>\<open>isEmptyData\<close> (lines 430-451).\<close>

definition metadata_keys :: "jsstring list" where
  "metadata_keys = [js ''code'', js ''data'', js ''message'', js ''recordTime'', js ''msg'']"

definition listing_keys :: "jsstring list" where
  "listing_keys = [js ''items'', js ''item_list'', js ''notes'', js ''note_list'',
     js ''list'', js ''results'', js ''video_list'']"

function isEmptyData :: "jsval \<Rightarrow> bool" where
  "isEmptyData JUndefined = True"
| "isEmptyData JNull = True"
| "isEmptyData (JArr xs) = (length xs = 0)"
| "isEmptyData (JObj kvs) =
    (let keys = map fst kvs in
     if length keys = 0 then True
     else if (has_key kvs (js ''data'') \<and> isEmptyData (field kvs (js ''data'')))
             \<and> length (filter (\<lambda>k. k \<notin> set metadata_keys) keys) = 0 then True
     else if list_ex (\<lambda>k. has_key kvs k \<and>
                (case field kvs k of JArr ys \<Rightarrow> length ys = 0 | _ \<Rightarrow> False)) listing_keys
          then True
     else False)"
| "isEmptyData (JBool b) = False"
| "isEmptyData (JNum r) = False"
| "isEmptyData (JStr s) = False"
  by pat_completeness auto
termination
proof (relation "measure size")
  show "wf (measure size)" by simp
next
  fix kvs :: "(jsstring \<times> jsval) list" and ks :: "jsstring list"
  show "(field kvs (js ''data''), JObj kvs) \<in> measure size"
  proof (cases "map_of kvs (js ''data'')")
    case None
    then show ?thesis by (simp add: field_def)
  next
    case (Some v)
    then have "(js ''data'', v) \<in> set kvs" by (rule map_of_SomeD)
    then have "size_prod (\<lambda>x. 0) size (js ''data'', v)
        \<le> size_list (size_prod (\<lambda>x. 0) size) kvs"
      by (rule size_list_estimation') simp
    with Some show ?thesis by (simp add: field_def)
  qed
qed

section \<open>Requests, responses and the remote services\<close>

text \<open>
  What \<open>fetch\<close> is given: \<open>req_timeout\<close> is the \<open>AbortSignal.timeout(ms)\<close> passed as
  \<open>signal\<close>, \<open>None\<close> when the options carry no signal.
\<close>

record http_request =
  req_method :: jsstring
  req_url :: jsstring
  req_headers :: "(jsstring \<times> jsstring) list"
  req_body :: "jsstring option"
  req_timeout :: "nat option"

text \<open>
  How one exchange ends: \<open>fetch\<close> rejects (a network error or the timeout; the
  string is \<open>e instanceof Error ? e.message : String(e)\<close>), or answers with a
  status that is not ok and a body text (\<open>""\<close> when reading it failed), or answers
  ok with a body \<open>res.json()\<close> rejects, or answers ok with a JSON body.
\<close>

datatype 'a fetch_outcome =
    FetchThrows jsstring
  | NotOk nat jsstring
  | JsonThrows jsstring
  | Json 'a

text \<open>
  The body of \<open>POST /search\<close>, as \<open>fallbackWebSearch\<close> casts it: \<open>results\<close> may be
  missing, \<open>snippet\<close> and \<open>content\<close> are optional.
\<close>

record search_result =
  sr_title :: jsstring
  sr_url :: jsstring
  sr_snippet :: "jsstring option"
  sr_content :: "jsstring option"

record search_response =
  resp_query :: jsstring
  resp_provider :: jsstring
  resp_results :: "search_result list option"

text \<open>
  The two remote services, as deterministic functions of the request, and the
  configuration a host reads at start.
\<close>

record world =
  tikhub_endpoint :: "http_request \<Rightarrow> jsval fetch_outcome"
  search_endpoint :: "http_request \<Rightarrow> search_response fetch_outcome"

record env =
  BASE_URL :: jsstring
  API_KEY :: jsstring
  TIKHUB_API_KEY :: jsstring

definition TIKHUB_URL :: jsstring where
  "TIKHUB_URL = js ''https://mcp.tikhub.io/tools/call''"

text \<open>The requests a dispatch issues, in the order it issues them, by call site.\<close>

datatype call = TikhubCall http_request | SearchCall http_request

fun is_search_call :: "call \<Rightarrow> bool" where
  "is_search_call (SearchCall r) = True"
| "is_search_call (TikhubCall r) = False"

fun call_request :: "call \<Rightarrow> http_request" where
  "call_request (SearchCall r) = r"
| "call_request (TikhubCall r) = r"

text \<open>A log in which a search request, if there is one, is the last request.\<close>

fun search_only_last :: "call list \<Rightarrow> bool" where
  "search_only_last [] = True"
| "search_only_last (c # cs) = (if is_search_call c then cs = [] else search_only_last cs)"

text \<open>
  What a handler hands to its host: a text content, a text content flagged
  \<open>isError\<close>, a thrown \<open>Error\<close> with its message, or a thrown TypeError.
\<close>

datatype host_result =
    Content jsstring
  | ErrorContent jsstring
  | ThrowsError jsstring
  | ThrowsTypeError

text \<open>
  Where the primary attempt leaves the handler: it has returned, or it falls
  through to the fallback section with \<open>tikhubFailed\<close> and \<open>failReason\<close>. The
  reason is a string, except that a truthy \<open>data.error\<close> is stored as it is.
\<close>

datatype flow = Returned host_result | FallsThrough bool jsval

section \<open>\<open>src/proxy/mcp-server.ts\<close>: \<open>api\<close>, \<open>fallbackWebSearch\<close> and the \<open>tikhub_call\<close> handler\<close>

text \<open>
  \<open>api\<close> (lines 28-48), at the type of the \<open>/search\<close> response. \<open>Inl\<close> is the
  message of the error it throws. Its options carry no \<open>signal\<close>.
\<close>

definition api ::
  "runtime \<Rightarrow> env \<Rightarrow> world \<Rightarrow> jsstring \<Rightarrow> jsstring \<Rightarrow> jsval option
     \<Rightarrow> (jsstring + search_response) \<times> call list" where
  "api rt env w method path body =
    (let req = \<lparr>req_method = method,
                req_url = BASE_URL env @ path,
                req_headers = [(js ''X-API-Key'', API_KEY env)] @
                  (case body of None \<Rightarrow> []
                   | Some b \<Rightarrow> [(js ''Content-Type'', js ''application/json'')]),
                req_body = map_option (JSON_stringify rt) body,
                req_timeout = None\<rparr>
     in (case search_endpoint w req of
           FetchThrows m \<Rightarrow> Inl m
         | NotOk status text \<Rightarrow>
             Inl (method @ js '' '' @ path @ js '' '' @ [0x2192] @ js '' '' @
                  Number_toString rt (real status) @ js '': '' @ text)
         | JsonThrows m \<Rightarrow> Inl m
         | Json d \<Rightarrow> Inr d,
         [SearchCall req]))"

text \<open>\<open>fallbackWebSearch\<close> (lines 453-491); \<open>None\<close> is its \<open>null\<close>.\<close>

definition fallback_marker :: jsstring where
  "fallback_marker = js ''[TikHub '' @
     [0x4E0D, 0x53EF, 0x7528, 0xFF0C, 0x5DF2, 0x81EA, 0x52A8, 0x56DE, 0x9000, 0x5230,
      0x7F51, 0x9875, 0x641C, 0x7D22] @ js '']''"

fun result_lines :: "runtime \<Rightarrow> nat \<Rightarrow> search_result list \<Rightarrow> jsstring list" where
  "result_lines rt i [] = []"
| "result_lines rt i (r # rs) =
    [Number_toString rt (real (i + 1)) @ js ''. '' @ sr_title r,
     js ''   '' @ sr_url r] @
    (case sr_snippet r of
       Some s \<Rightarrow> if s \<noteq> [] then [js ''   '' @ s] else []
     | None \<Rightarrow> []) @
    (case sr_content r of
       Some c \<Rightarrow> if c \<noteq> [] then [[], js ''   --- Page Content ---'', js ''   '' @ c] else []
     | None \<Rightarrow> []) @
    [[]] @
    result_lines rt (i + 1) rs"

definition search_body :: "jsstring \<Rightarrow> jsval" where
  "search_body query =
     JObj [(js ''query'', JStr query), (js ''count'', JNum 5),
           (js ''enrich'', JBool True), (js ''max_chars'', JNum 5000)]"

definition fallbackWebSearch ::
  "runtime \<Rightarrow> env \<Rightarrow> world \<Rightarrow> jsstring \<Rightarrow> jsstring option \<Rightarrow> jsstring option \<times> call list" where
  "fallbackWebSearch rt env w keyword platform =
    (let query = (case platform of
                    Some p \<Rightarrow> if p \<noteq> [] then p @ js '' '' @ keyword else keyword
                  | None \<Rightarrow> keyword);
         (r, calls) = api rt env w (js ''POST'') (js ''/search'') (Some (search_body query))
     in (case r of
           Inl e \<Rightarrow> None
         | Inr data \<Rightarrow>
             (case resp_results data of
                None \<Rightarrow> None
              | Some rs \<Rightarrow>
                  if length rs = 0 then None
                  else Some (join [0x000A]
                    ([fallback_marker,
                      js ''Search: '' @ [0x0022] @ resp_query data @ [0x0022] @ js '' ('' @
                        Number_toString rt (real (length rs)) @ js '' results via '' @
                        resp_provider data @ js '')'',
                      []] @ result_lines rt 0 rs))),
         calls))"

text \<open>Argument normalization (lines 515-529).\<close>

definition mcp_normalize :: "runtime \<Rightarrow> jsval \<Rightarrow> host_result + jsval" where
  "mcp_normalize rt rawArgs =
    (if is_object rawArgs then Inr rawArgs
     else (case (if truthy rawArgs then ToString rt rawArgs else Some (js ''{}'')) of
             None \<Rightarrow> Inl (ErrorContent (js ''Invalid arguments JSON string''))
           | Some text \<Rightarrow>
               (case JSON_parse rt text of
                  None \<Rightarrow> Inl (ErrorContent (js ''Invalid arguments JSON string''))
                | Some args \<Rightarrow> Inr args)))"

text \<open>
  What the handler does with the outcome of its \<open>fetch\<close> (lines 558-613). A
  \<open>null\<close> body makes \<open>data.error\<close> throw inside the \<open>try\<close>, and so does the
  template literal of the upstream-error reason when \<open>code\<close> or \<open>message\<close> cannot
  be converted to a string; the \<open>catch\<close> takes the message of the error.
\<close>

definition mcp_classify :: "runtime \<Rightarrow> jsstring \<Rightarrow> jsval fetch_outcome \<Rightarrow> flow" where
  "mcp_classify rt tool_name outcome =
    (case outcome of
       FetchThrows m \<Rightarrow> FallsThrough True (JStr m)
     | NotOk status text \<Rightarrow>
         FallsThrough True
           (JStr (js ''HTTP '' @ Number_toString rt (real status) @ js '': '' @ take 200 text))
     | JsonThrows m \<Rightarrow> FallsThrough True (JStr m)
     | Json data \<Rightarrow>
         if nullish data then FallsThrough True (JStr (null_read_message rt))
         else if truthy (js_get data (js ''error''))
         then FallsThrough True (js_get data (js ''error''))
         else
           (let result = js_get data (js ''result'') in
            if truthy result \<and> is_object result then
              (let innerData = js_get result (js ''data'');
                   code = js_get result (js ''code'');
                   message = js_get result (js ''message'')
               in if truthy code \<and> code \<noteq> JNum 200 then
                    (case (ToString rt code,
                           ToString rt (if truthy message then message
                                        else JStr (js ''error''))) of
                       (Some c, Some m) \<Rightarrow>
                         FallsThrough True
                           (JStr (tool_name @ js '' returned code '' @ c @ js '': '' @ m))
                     | _ \<Rightarrow> FallsThrough True (JStr (to_primitive_message rt)))
                  else if isEmptyData innerData then
                    FallsThrough True
                      (JStr (tool_name @ js '' returned empty data (platform anti-bot)''))
                  else
                    (let text = JSON_stringify_2 rt
                                  (if nullish innerData then result else innerData);
                         text = (if length text > 50000
                                 then take 50000 text @ [0x000A, 0x000A] @
                                      js ''... (truncated, result too large)''
                                 else text)
                     in Returned (Content
                          (js ''TikHub '' @ tool_name @ js '' result:'' @
                           [0x000A, 0x000A] @ text))))
            else
              (let text = JSON_stringify_2 rt data;
                   text = (if length text > 50000
                           then take 50000 text @ [0x000A, 0x000A] @ js ''... (truncated)''
                           else text)
               in Returned (Content text))))"

text \<open>The request of the primary call (lines 545-556).\<close>

definition mcp_tikhub_request :: "runtime \<Rightarrow> env \<Rightarrow> jsstring \<Rightarrow> jsval \<Rightarrow> http_request" where
  "mcp_tikhub_request rt env tool_name args =
    \<lparr>req_method = js ''POST'',
     req_url = TIKHUB_URL,
     req_headers = [(js ''Authorization'', js ''Bearer '' @ TIKHUB_API_KEY env),
                    (js ''Content-Type'', js ''application/json'')],
     req_body = Some (JSON_stringify rt
                  (JObj [(js ''tool_name'', JStr tool_name), (js ''arguments'', args)])),
     req_timeout = Some 25000\<rparr>"

text \<open>The primary attempt (lines 534-614).\<close>

definition mcp_try :: "runtime \<Rightarrow> env \<Rightarrow> world \<Rightarrow> jsstring \<Rightarrow> jsval \<Rightarrow> flow \<times> call list" where
  "mcp_try rt env w tool_name args =
    (if TIKHUB_API_KEY env = [] then (FallsThrough True (JStr (js ''API key not configured'')), [])
     else (let req = mcp_tikhub_request rt env tool_name args
           in (mcp_classify rt tool_name (tikhub_endpoint w req), [TikhubCall req])))"

text \<open>
  The fallback section and the final error (lines 616-637). The template literals
  that print \<open>failReason\<close> stand after the fallback search and outside the \<open>try\<close>:
  when the reason cannot be converted to a string, the handler throws a TypeError
  there.
\<close>

definition fallback_also_failed :: jsstring where
  "fallback_also_failed =
     [0x000A, 0x7F51, 0x9875, 0x641C, 0x7D22, 0x56DE, 0x9000, 0x4E5F, 0x5931, 0x8D25,
      0x4E86, 0x3002]"

definition no_keyword_for_fallback :: jsstring where
  "no_keyword_for_fallback =
     [0x000A, 0x8BE5, 0x5DE5, 0x5177, 0x6CA1, 0x6709] @ js '' keyword '' @
     [0x53C2, 0x6570, 0xFF0C, 0x65E0, 0x6CD5, 0x81EA, 0x52A8, 0x56DE, 0x9000, 0x5230,
      0x7F51, 0x9875, 0x641C, 0x7D22, 0x3002]"

definition fallback_text :: "jsstring \<Rightarrow> jsstring \<Rightarrow> jsstring" where
  "fallback_text failReason fallbackResult =
     js ''TikHub '' @ [0x5931, 0x8D25] @ js '' ('' @ failReason @ js '')'' @
     [0xFF0C, 0x5DF2, 0x81EA, 0x52A8, 0x56DE, 0x9000, 0x5230, 0x7F51, 0x9875, 0x641C,
      0x7D22] @ js '':'' @ [0x000A, 0x000A] @ fallbackResult"

definition tikhub_failed_prefix :: jsstring where
  "tikhub_failed_prefix = js ''TikHub '' @ [0x5931, 0x8D25] @ js '': ''"

fun str_truthy :: "jsstring option \<Rightarrow> bool" where
  "str_truthy None = False"
| "str_truthy (Some s) = (s \<noteq> [])"

definition mcp_finish ::
  "runtime \<Rightarrow> env \<Rightarrow> world \<Rightarrow> jsstring option \<Rightarrow> jsstring option \<Rightarrow> bool \<Rightarrow> jsval
     \<Rightarrow> host_result \<times> call list" where
  "mcp_finish rt env w keyword platform tikhubFailed failReason =
    (let (fallbackResult, calls) =
           (case keyword of
              Some k \<Rightarrow>
                if tikhubFailed \<and> k \<noteq> [] then fallbackWebSearch rt env w k platform
                else (None, [])
            | None \<Rightarrow> (None, []));
         errorResult =
           (if tikhubFailed
            then (case ToString rt failReason of
                    Some reason \<Rightarrow>
                      ErrorContent
                        (tikhub_failed_prefix @ reason @
                         (if str_truthy keyword then fallback_also_failed
                          else no_keyword_for_fallback))
                  | None \<Rightarrow> ThrowsTypeError)
            else ErrorContent (js ''Unknown error''))
     in (case fallbackResult of
           Some t \<Rightarrow>
             if t \<noteq> []
             then (case ToString rt failReason of
                     Some reason \<Rightarrow> Content (fallback_text reason t)
                   | None \<Rightarrow> ThrowsTypeError)
             else errorResult
         | None \<Rightarrow> errorResult,
         calls))"

text \<open>The handler (lines 514-638): its result and the requests it issued, in order.\<close>

definition mcp_tikhub_call ::
  "runtime \<Rightarrow> env \<Rightarrow> world \<Rightarrow> jsstring \<Rightarrow> jsval \<Rightarrow> host_result \<times> call list" where
  "mcp_tikhub_call rt env w tool_name rawArgs =
    (case mcp_normalize rt rawArgs of
       Inl r \<Rightarrow> (r, [])
     | Inr args \<Rightarrow>
         (case extractKeyword args of
            Inl u \<Rightarrow> (ThrowsTypeError, [])
          | Inr keyword \<Rightarrow>
              (let platform = extractPlatform rt tool_name;
                   (fl, calls1) = mcp_try rt env w tool_name args
               in case fl of
                    Returned r \<Rightarrow> (r, calls1)
                  | FallsThrough tikhubFailed failReason \<Rightarrow>
                      (let (r, calls2) =
                             mcp_finish rt env w keyword platform tikhubFailed failReason
                       in (r, calls1 @ calls2)))))"

section \<open>\<open>src/plugin/index.ts\<close>: the same helpers and the \<open>tikhub_call\<close> tool\<close>

text \<open>
  The plugin declares its own copies of the table and the helpers, inside
  \<open>if (TIKHUB_API_KEY)\<close>: the tool is registered only when the key is configured.
\<close>

definition plugin_registers_tikhub_call :: "env \<Rightarrow> bool" where
  "plugin_registers_tikhub_call env = (TIKHUB_API_KEY env \<noteq> [])"

text \<open>\<open>PLATFORM_NAMES\<close> (lines 441-452) and \<open>extractPlatform\<close> (lines 454-457).\<close>

definition plugin_PLATFORM_NAMES :: "(jsstring \<times> jsstring) list" where
  "plugin_PLATFORM_NAMES =
    [(js ''douyin'', [0x6296, 0x97F3]),
     (js ''tiktok'', js ''TikTok''),
     (js ''xiaohongshu'', [0x5C0F, 0x7EA2, 0x4E66]),
     (js ''weibo'', [0x5FAE, 0x535A]),
     (js ''bilibili'', js ''B'' @ [0x7AD9]),
     (js ''instagram'', js ''Instagram''),
     (js ''youtube'', js ''YouTube''),
     (js ''twitter'', js ''Twitter''),
     (js ''kuaishou'', [0x5FEB, 0x624B]),
     (js ''reddit'', js ''Reddit'')]"

definition plugin_extractPlatform :: "runtime \<Rightarrow> jsstring \<Rightarrow> jsstring option" where
  "plugin_extractPlatform rt toolName =
    (let prefix = takeWhile (\<lambda>c. c \<noteq> of_char CHR ''_'') toolName in
     case map_of plugin_PLATFORM_NAMES prefix of
       Some label \<Rightarrow> Some label
     | None \<Rightarrow> inherited_member rt prefix)"

text \<open>\<open>extractKeyword\<close> (lines 459-464).\<close>

fun plugin_extractKeyword_loop :: "jsval \<Rightarrow> jsstring list \<Rightarrow> jsstring option" where
  "plugin_extractKeyword_loop args [] = None"
| "plugin_extractKeyword_loop args (key # keys) =
    (case js_get args key of
       JStr s \<Rightarrow> if s \<noteq> [] then Some s else plugin_extractKeyword_loop args keys
     | _ \<Rightarrow> plugin_extractKeyword_loop args keys)"

definition plugin_extractKeyword :: "jsval \<Rightarrow> unit + jsstring option" where
  "plugin_extractKeyword args =
    (if nullish args then Inl ()
     else Inr (plugin_extractKeyword_loop args
       [js ''keyword'', js ''query'', js ''search_keyword'', js ''keywords'']))"

text \<open>\<open>isEmptyData\<close> (lines 466-497).\<close>

function plugin_isEmptyData :: "jsval \<Rightarrow> bool" where
  "plugin_isEmptyData JUndefined = True"
| "plugin_isEmptyData JNull = True"
| "plugin_isEmptyData (JArr xs) = (length xs = 0)"
| "plugin_isEmptyData (JObj kvs) =
    (let keys = map fst kvs in
     if length keys = 0 then True
     else if (has_key kvs (js ''data'') \<and> plugin_isEmptyData (field kvs (js ''data'')))
             \<and> length (filter (\<lambda>k. k \<notin> set [js ''code'', js ''data'', js ''message'',
                                              js ''recordTime'', js ''msg'']) keys) = 0
          then True
     else if list_ex (\<lambda>k. has_key kvs k \<and>
                (case field kvs k of JArr ys \<Rightarrow> length ys = 0 | _ \<Rightarrow> False))
               [js ''items'', js ''item_list'', js ''notes'', js ''note_list'',
                js ''list'', js ''results'', js ''video_list'']
          then True
     else False)"
| "plugin_isEmptyData (JBool b) = False"
| "plugin_isEmptyData (JNum r) = False"
| "plugin_isEmptyData (JStr s) = False"
  by pat_completeness auto
termination
proof (relation "measure size")
  show "wf (measure size)" by simp
next
  fix kvs :: "(jsstring \<times> jsval) list" and ks :: "jsstring list"
  show "(field kvs (js ''data''), JObj kvs) \<in> measure size"
  proof (cases "map_of kvs (js ''data'')")
    case None
    then show ?thesis by (simp add: field_def)
  next
    case (Some v)
    then have "(js ''data'', v) \<in> set kvs" by (rule map_of_SomeD)
    then have "size_prod (\<lambda>x. 0) size (js ''data'', v)
        \<le> size_list (size_prod (\<lambda>x. 0) size) kvs"
      by (rule size_list_estimation') simp
    with Some show ?thesis by (simp add: field_def)
  qed
qed

text \<open>
  \<open>apiCall\<close> (lines 46-60): as \<open>api\<close>, with a \<open>signal\<close> of \<open>timeoutMs\<close>
  milliseconds, 28000 when the caller passes none.
\<close>

definition apiCall ::
  "runtime \<Rightarrow> env \<Rightarrow> world \<Rightarrow> jsstring \<Rightarrow> jsstring \<Rightarrow> jsval option \<Rightarrow> nat option
     \<Rightarrow> (jsstring + search_response) \<times> call list" where
  "apiCall rt env w method path body timeoutMs =
    (let req = \<lparr>req_method = method,
                req_url = BASE_URL env @ path,
                req_headers = [(js ''X-API-Key'', API_KEY env)] @
                  (case body of None \<Rightarrow> []
                   | Some b \<Rightarrow> [(js ''Content-Type'', js ''application/json'')]),
                req_body = map_option (JSON_stringify rt) body,
                req_timeout = Some (case timeoutMs of None \<Rightarrow> 28000 | Some t \<Rightarrow> t)\<rparr>
     in (case search_endpoint w req of
           FetchThrows m \<Rightarrow> Inl m
         | NotOk status text \<Rightarrow>
             Inl (method @ js '' '' @ path @ js '' '' @ [0x2192] @ js '' '' @
                  Number_toString rt (real status) @ js '': '' @ text)
         | JsonThrows m \<Rightarrow> Inl m
         | Json d \<Rightarrow> Inr d,
         [SearchCall req]))"

text \<open>\<open>fallbackWebSearch\<close> (lines 499-547).\<close>

fun plugin_result_lines :: "runtime \<Rightarrow> nat \<Rightarrow> search_result list \<Rightarrow> jsstring list" where
  "plugin_result_lines rt i [] = []"
| "plugin_result_lines rt i (r # rs) =
    [Number_toString rt (real (i + 1)) @ js ''. '' @ sr_title r,
     js ''   '' @ sr_url r] @
    (case sr_snippet r of
       Some s \<Rightarrow> if s \<noteq> [] then [js ''   '' @ s] else []
     | None \<Rightarrow> []) @
    (case sr_content r of
       Some c \<Rightarrow> if c \<noteq> [] then [[], js ''   --- Page Content ---'', js ''   '' @ c] else []
     | None \<Rightarrow> []) @
    [[]] @
    plugin_result_lines rt (i + 1) rs"

definition plugin_fallbackWebSearch ::
  "runtime \<Rightarrow> env \<Rightarrow> world \<Rightarrow> jsstring \<Rightarrow> jsstring option \<Rightarrow> jsstring option \<times> call list" where
  "plugin_fallbackWebSearch rt env w keyword platform =
    (let query = (case platform of
                    Some p \<Rightarrow> if p \<noteq> [] then p @ js '' '' @ keyword else keyword
                  | None \<Rightarrow> keyword);
         (r, calls) = apiCall rt env w (js ''POST'') (js ''/search'')
                        (Some (JObj [(js ''query'', JStr query), (js ''count'', JNum 5),
                                     (js ''enrich'', JBool True),
                                     (js ''max_chars'', JNum 5000)])) None
     in (case r of
           Inl e \<Rightarrow> None
         | Inr data \<Rightarrow>
             (case resp_results data of
                None \<Rightarrow> None
              | Some rs \<Rightarrow>
                  if length rs = 0 then None
                  else Some (join [0x000A]
                    ([js ''[TikHub '' @
                        [0x4E0D, 0x53EF, 0x7528, 0xFF0C, 0x5DF2, 0x81EA, 0x52A8, 0x56DE,
                         0x9000, 0x5230, 0x7F51, 0x9875, 0x641C, 0x7D22] @ js '']'',
                      js ''Search: '' @ [0x0022] @ resp_query data @ [0x0022] @ js '' ('' @
                        Number_toString rt (real (length rs)) @ js '' results via '' @
                        resp_provider data @ js '')'',
                      []] @ plugin_result_lines rt 0 rs))),
         calls))"

text \<open>Argument normalization (lines 583-594): a string that does not parse throws.\<close>

definition plugin_normalize :: "runtime \<Rightarrow> jsval \<Rightarrow> host_result + jsval" where
  "plugin_normalize rt rawArgs =
    (if is_object rawArgs then Inr rawArgs
     else (case (if truthy rawArgs then ToString rt rawArgs else Some (js ''{}'')) of
             None \<Rightarrow> Inl (ThrowsError (js ''Invalid arguments JSON string''))
           | Some text \<Rightarrow>
               (case JSON_parse rt text of
                  None \<Rightarrow> Inl (ThrowsError (js ''Invalid arguments JSON string''))
                | Some args \<Rightarrow> Inr args)))"

text \<open>What the tool does with the outcome of its \<open>fetch\<close> (lines 615-668).\<close>

definition plugin_classify :: "runtime \<Rightarrow> jsstring \<Rightarrow> jsval fetch_outcome \<Rightarrow> flow" where
  "plugin_classify rt toolName outcome =
    (case outcome of
       FetchThrows m \<Rightarrow> FallsThrough True (JStr m)
     | NotOk status text \<Rightarrow>
         FallsThrough True
           (JStr (js ''HTTP '' @ Number_toString rt (real status) @ js '': '' @ take 200 text))
     | JsonThrows m \<Rightarrow> FallsThrough True (JStr m)
     | Json data \<Rightarrow>
         if nullish data then FallsThrough True (JStr (null_read_message rt))
         else if truthy (js_get data (js ''error''))
         then FallsThrough True (js_get data (js ''error''))
         else
           (let result = js_get data (js ''result'') in
            if truthy result \<and> is_object result then
              (let innerData = js_get result (js ''data'');
                   code = js_get result (js ''code'');
                   message = js_get result (js ''message'')
               in if truthy code \<and> code \<noteq> JNum 200 then
                    (case (ToString rt code,
                           ToString rt (if truthy message then message
                                        else JStr (js ''error''))) of
                       (Some c, Some m) \<Rightarrow>
                         FallsThrough True
                           (JStr (toolName @ js '' returned code '' @ c @ js '': '' @ m))
                     | _ \<Rightarrow> FallsThrough True (JStr (to_primitive_message rt)))
                  else if plugin_isEmptyData innerData then
                    FallsThrough True
                      (JStr (toolName @ js '' returned empty data (platform anti-bot)''))
                  else
                    (let text = JSON_stringify_2 rt
                                  (if nullish innerData then result else innerData);
                         text = (if length text > 50000
                                 then take 50000 text @ [0x000A, 0x000A] @
                                      js ''... (truncated, result too large)''
                                 else text)
                     in Returned (Content
                          (js ''TikHub '' @ toolName @ js '' result:'' @
                           [0x000A, 0x000A] @ text))))
            else
              (let text = JSON_stringify_2 rt data;
                   text = (if length text > 50000
                           then take 50000 text @ [0x000A, 0x000A] @ js ''... (truncated)''
                           else text)
               in Returned (Content text))))"

text \<open>The request of the primary call (lines 605-613) and the primary attempt.\<close>

definition plugin_tikhub_request :: "runtime \<Rightarrow> env \<Rightarrow> jsstring \<Rightarrow> jsval \<Rightarrow> http_request" where
  "plugin_tikhub_request rt env toolName args =
    \<lparr>req_method = js ''POST'',
     req_url = TIKHUB_URL,
     req_headers = [(js ''Authorization'', js ''Bearer '' @ TIKHUB_API_KEY env),
                    (js ''Content-Type'', js ''application/json'')],
     req_body = Some (JSON_stringify rt
                  (JObj [(js ''tool_name'', JStr toolName), (js ''arguments'', args)])),
     req_timeout = Some 25000\<rparr>"

definition plugin_try :: "runtime \<Rightarrow> env \<Rightarrow> world \<Rightarrow> jsstring \<Rightarrow> jsval \<Rightarrow> flow \<times> call list" where
  "plugin_try rt env w toolName args =
    (let req = plugin_tikhub_request rt env toolName args
     in (plugin_classify rt toolName (tikhub_endpoint w req), [TikhubCall req]))"

text \<open>
  The fallback section and the final error, thrown (lines 670-690); a reason that
  cannot be converted to a string makes the template literals throw a TypeError.
\<close>

definition plugin_finish ::
  "runtime \<Rightarrow> env \<Rightarrow> world \<Rightarrow> jsstring option \<Rightarrow> jsstring option \<Rightarrow> bool \<Rightarrow> jsval
     \<Rightarrow> host_result \<times> call list" where
  "plugin_finish rt env w keyword platform tikhubFailed failReason =
    (let (fallbackResult, calls) =
           (case keyword of
              Some k \<Rightarrow>
                if tikhubFailed \<and> k \<noteq> [] then plugin_fallbackWebSearch rt env w k platform
                else (None, [])
            | None \<Rightarrow> (None, []));
         errorResult =
           (case ToString rt failReason of
              Some reason \<Rightarrow>
                ThrowsError
                  (if str_truthy keyword
                   then js ''TikHub '' @ [0x5931, 0x8D25] @ js '': '' @ reason @
                        [0x000A, 0x7F51, 0x9875, 0x641C, 0x7D22, 0x56DE, 0x9000, 0x4E5F,
                         0x5931, 0x8D25, 0x4E86, 0x3002]
                   else js ''TikHub '' @ [0x5931, 0x8D25] @ js '': '' @ reason @
                        [0x000A, 0x8BE5, 0x5DE5, 0x5177, 0x6CA1, 0x6709] @ js '' keyword '' @
                        [0x53C2, 0x6570, 0xFF0C, 0x65E0, 0x6CD5, 0x81EA, 0x52A8, 0x56DE,
                         0x9000, 0x5230, 0x7F51, 0x9875, 0x641C, 0x7D22, 0x3002])
            | None \<Rightarrow> ThrowsTypeError)
     in (case fallbackResult of
           Some t \<Rightarrow>
             if t \<noteq> []
             then (case ToString rt failReason of
                     Some reason \<Rightarrow>
                       Content
                         (js ''TikHub '' @ [0x5931, 0x8D25] @ js '' ('' @ reason @ js '')'' @
                          [0xFF0C, 0x5DF2, 0x81EA, 0x52A8, 0x56DE, 0x9000, 0x5230, 0x7F51,
                           0x9875, 0x641C, 0x7D22] @ js '':'' @ [0x000A, 0x000A] @ t)
                   | None \<Rightarrow> ThrowsTypeError)
             else errorResult
         | None \<Rightarrow> errorResult,
         calls))"

text \<open>The tool's \<open>execute\<close> (lines 582-691).\<close>

definition plugin_tikhub_call ::
  "runtime \<Rightarrow> env \<Rightarrow> world \<Rightarrow> jsstring \<Rightarrow> jsval \<Rightarrow> host_result \<times> call list" where
  "plugin_tikhub_call rt env w toolName rawArgs =
    (case plugin_normalize rt rawArgs of
       Inl r \<Rightarrow> (r, [])
     | Inr args \<Rightarrow>
         (case plugin_extractKeyword args of
            Inl u \<Rightarrow> (ThrowsTypeError, [])
          | Inr keyword \<Rightarrow>
              (let platform = plugin_extractPlatform rt toolName;
                   (fl, calls1) = plugin_try rt env w toolName args
               in case fl of
                    Returned r \<Rightarrow> (r, calls1)
                  | FallsThrough tikhubFailed failReason \<Rightarrow>
                      (let (r, calls2) =
                             plugin_finish rt env w keyword platform tikhubFailed failReason
                       in (r, calls1 @ calls2)))))"

section \<open>The request of the fallback search\<close>

text \<open>
  The query of the fallback search, from the keyword and the platform label, and
  the request \<open>POST /search\<close> that carries it: result count 5, enrichment on, 5000
  characters per page; \<open>t\<close> is the timeout of its \<open>signal\<close>, if it has one.
\<close>

definition fallback_query :: "jsstring \<Rightarrow> jsstring option \<Rightarrow> jsstring" where
  "fallback_query keyword platform =
    (case platform of
       None \<Rightarrow> keyword
     | Some label \<Rightarrow> if label \<noteq> [] then label @ js '' '' @ keyword else keyword)"

definition search_request :: "runtime \<Rightarrow> env \<Rightarrow> jsstring \<Rightarrow> nat option \<Rightarrow> http_request" where
  "search_request rt env q t =
    \<lparr>req_method = js ''POST'',
     req_url = BASE_URL env @ js ''/search'',
     req_headers = [(js ''X-API-Key'', API_KEY env),
                    (js ''Content-Type'', js ''application/json'')],
     req_body = Some (JSON_stringify rt
       (JObj [(js ''query'', JStr q), (js ''count'', JNum 5),
              (js ''enrich'', JBool True), (js ''max_chars'', JNum 5000)])),
     req_timeout = t\<rparr>"

section \<open>A deterministic mock of the runtime and the remote services\<close>

text \<open>
  The examples below run the handlers against a fixed runtime and fixed remote
  answers. The mock runtime is exact on what the examples give it: numbers that
  are natural numbers, strings with no character that JSON escapes, values with no
  \<open>undefined\<close> inside, and the argument strings of the table of \<open>mock_parse\<close>
  (every other string it is given in the examples is not a JSON text).
\<close>

fun decimal :: "nat \<Rightarrow> jsstring" where
  "decimal n =
    (if n < 10 then [of_nat (48 + n)] else decimal (n div 10) @ [of_nat (48 + n mod 10)])"

declare decimal.simps [simp del]

definition quoted :: "jsstring \<Rightarrow> jsstring" where
  "quoted s = [0x0022] @ s @ [0x0022]"

fun mock_stringify :: "jsval \<Rightarrow> jsstring" where
  "mock_stringify JUndefined = js ''null''"
| "mock_stringify JNull = js ''null''"
| "mock_stringify (JBool b) = (if b then js ''true'' else js ''false'')"
| "mock_stringify (JNum r) = decimal (nat \<lfloor>r\<rfloor>)"
| "mock_stringify (JStr s) = quoted s"
| "mock_stringify (JArr xs) = js ''['' @ join (js '','') (map mock_stringify xs) @ js '']''"
| "mock_stringify (JObj kvs) =
     js ''{'' @ join (js '','')
       (map (\<lambda>kv. quoted (fst kv) @ js '':'' @ mock_stringify (snd kv)) kvs) @ js ''}''"

fun mock_stringify_2 :: "nat \<Rightarrow> jsval \<Rightarrow> jsstring" where
  "mock_stringify_2 d JUndefined = js ''null''"
| "mock_stringify_2 d JNull = js ''null''"
| "mock_stringify_2 d (JBool b) = (if b then js ''true'' else js ''false'')"
| "mock_stringify_2 d (JNum r) = decimal (nat \<lfloor>r\<rfloor>)"
| "mock_stringify_2 d (JStr s) = quoted s"
| "mock_stringify_2 d (JArr xs) =
    (if xs = [] then js ''[]''
     else js ''['' @ [0x000A] @
          join (js '','' @ [0x000A])
            (map (\<lambda>x. replicate (2 * (d + 1)) 0x0020 @ mock_stringify_2 (d + 1) x) xs) @
          [0x000A] @ replicate (2 * d) 0x0020 @ js '']'')"
| "mock_stringify_2 d (JObj kvs) =
    (if kvs = [] then js ''{}''
     else js ''{'' @ [0x000A] @
          join (js '','' @ [0x000A])
            (map (\<lambda>kv. replicate (2 * (d + 1)) 0x0020 @ quoted (fst kv) @ js '': '' @
                       mock_stringify_2 (d + 1) (snd kv)) kvs) @
          [0x000A] @ replicate (2 * d) 0x0020 @ js ''}'')"

definition mock_parse :: "jsstring \<Rightarrow> jsval option" where
  \<open>mock_parse s =
    (if s = js ''{}'' then Some (JObj [])
     else if s = js ''null'' then Some JNull
     else if s = js ''[1,2]'' then Some (JArr [JNum 1, JNum 2])
     else if s = js ''"AI"'' then Some (JStr (js ''AI''))
     else if s = js ''{"keyword":"AI","count":3}''
       then Some (JObj [(js ''keyword'', JStr (js ''AI'')), (js ''count'', JNum 3)])
     else None)\<close>

definition mock_runtime :: runtime where
  "mock_runtime =
    \<lparr>JSON_parse = mock_parse,
     JSON_stringify = mock_stringify,
     JSON_stringify_2 = mock_stringify_2 0,
     Number_toString = (\<lambda>r. decimal (nat \<lfloor>r\<rfloor>)),
     null_read_message = js ''null is not an object'',
     to_primitive_message = js ''Cannot convert object to primitive value'',
     inherited_member =
       (\<lambda>k. if k = js ''constructor'' then Some (js ''function Object() { [native code] }'')
            else None)\<rparr>"

definition mock_env :: env where
  "mock_env =
    \<lparr>BASE_URL = js ''http://127.0.0.1:17080'', API_KEY = js ''k'',
     TIKHUB_API_KEY = js ''t''\<rparr>"

definition mock_world ::
  "jsval fetch_outcome \<Rightarrow> search_response fetch_outcome \<Rightarrow> world" where
  "mock_world primary fallback =
    \<lparr>tikhub_endpoint = (\<lambda>req. primary), search_endpoint = (\<lambda>req. fallback)\<rparr>"

definition two_results :: search_response where
  "two_results =
    \<lparr>resp_query = js ''TikTok AI'', resp_provider = js ''tavily'',
     resp_results = Some
       [\<lparr>sr_title = js ''A'', sr_url = js ''http://a'', sr_snippet = Some (js ''s''),
         sr_content = None\<rparr>,
        \<lparr>sr_title = js ''B'', sr_url = js ''http://b'', sr_snippet = None,
         sr_content = Some (js ''c'')\<rparr>]\<rparr>"

text \<open>
  The call of the specification's scenarios, and answers of the gateway: an empty
  listing under code 200, an upstream error code, a code of 0 around a payload, an
  upstream error whose message is an object that owns a \<open>toString\<close> key, and a
  payload of one item.
\<close>

definition scenario_tool :: jsstring where
  "scenario_tool = js ''tiktok_web_fetch_search_video''"

definition scenario_args :: jsval where
  "scenario_args = JObj [(js ''keyword'', JStr (js ''AI'')), (js ''count'', JNum 3)]"

definition empty_listing :: jsval where
  "empty_listing =
    JObj [(js ''result'',
           JObj [(js ''code'', JNum 200),
                 (js ''data'', JObj [(js ''item_list'', JArr [])])])]"

definition rate_limited :: jsval where
  "rate_limited =
    JObj [(js ''result'',
           JObj [(js ''code'', JNum 400), (js ''message'', JStr (js ''rate limited''))])]"

definition code_zero :: jsval where
  "code_zero =
    JObj [(js ''result'',
           JObj [(js ''code'', JNum 0), (js ''data'', JObj [(js ''id'', JNum 1)])])]"

definition unprintable_message :: jsval where
  "unprintable_message =
    JObj [(js ''result'',
           JObj [(js ''code'', JNum 500),
                 (js ''message'', JObj [(js ''toString'', JNum 1)])])]"

definition one_item :: jsval where
  "one_item =
    JObj [(js ''result'', JObj [(js ''code'', JNum 200), (js ''data'', JArr [JNum 1])])]"

text \<open>
  The answers of the search service under which the fallback is unavailable: the
  request throws or times out, the status is not ok, the body is not JSON, or
  the results are missing or of length zero.
\<close>

fun unavailable :: "search_response fetch_outcome \<Rightarrow> bool" where
  "unavailable (FetchThrows m) = True"
| "unavailable (NotOk status body) = True"
| "unavailable (JsonThrows m) = True"
| "unavailable (Json d) = (case resp_results d of None \<Rightarrow> True | Some rs \<Rightarrow> rs = [])"

section \<open>The emptiness test\<close>






section \<open>The two hosts run the same helpers\<close>

lemma plugin_extractPlatform_eq: "plugin_extractPlatform rt t = extractPlatform rt t"
  by (simp add: plugin_extractPlatform_def extractPlatform_def plugin_PLATFORM_NAMES_def
      PLATFORM_NAMES_def)

lemma plugin_extractKeyword_loop_eq:
  "plugin_extractKeyword_loop args ks = extractKeyword_loop args ks"
  by (induction ks) (auto split: jsval.splits)

lemma plugin_extractKeyword_eq: "plugin_extractKeyword args = extractKeyword args"
  by (simp add: plugin_extractKeyword_def extractKeyword_def plugin_extractKeyword_loop_eq)

lemma plugin_isEmptyData_eq: "plugin_isEmptyData v = isEmptyData v"
proof (induction v rule: isEmptyData.induct)
  case (4 kvs)
  then show ?case
    by (simp add: Let_def metadata_keys_def listing_keys_def)
qed simp_all

lemma plugin_classify_eq: "plugin_classify rt t outcome = mcp_classify rt t outcome"
  unfolding plugin_classify_def mcp_classify_def plugin_isEmptyData_eq ..

lemma plugin_tikhub_request_eq:
  "plugin_tikhub_request rt env t args = mcp_tikhub_request rt env t args"
  by (simp add: plugin_tikhub_request_def mcp_tikhub_request_def)

lemma plugin_try_eq:
  "TIKHUB_API_KEY env \<noteq> [] \<Longrightarrow> plugin_try rt env w t args = mcp_try rt env w t args"
  by (simp add: plugin_try_def mcp_try_def plugin_tikhub_request_eq plugin_classify_eq)

lemma extractKeyword_loop_nonempty: "extractKeyword_loop args ks = Some k \<Longrightarrow> k \<noteq> []"
  by (induction ks) (auto split: jsval.splits if_splits)

lemma extractKeyword_nonempty: "extractKeyword args = Inr (Some k) \<Longrightarrow> k \<noteq> []"
  by (auto simp: extractKeyword_def simp del: extractKeyword_loop.simps
      dest: extractKeyword_loop_nonempty split: if_splits)

lemma fallbackWebSearch_calls:
  "snd (fallbackWebSearch rt env w k p) =
     [SearchCall (search_request rt env (fallback_query k p) None)]"
  by (simp add: fallbackWebSearch_def api_def Let_def case_prod_unfold search_request_def
      search_body_def fallback_query_def split: option.splits)

lemma plugin_fallbackWebSearch_calls:
  "snd (plugin_fallbackWebSearch rt env w k p) =
     [SearchCall (search_request rt env (fallback_query k p) (Some 28000))]"
  by (simp add: plugin_fallbackWebSearch_def apiCall_def Let_def case_prod_unfold
      search_request_def fallback_query_def split: option.splits)

lemma mcp_finish_calls:
  "snd (mcp_finish rt env w keyword platform failed reason) =
     (case keyword of
        Some k \<Rightarrow> if failed \<and> k \<noteq> [] then snd (fallbackWebSearch rt env w k platform) else []
      | None \<Rightarrow> [])"
  by (auto simp: mcp_finish_def Let_def split: prod.splits option.splits)

lemma plugin_finish_calls:
  "snd (plugin_finish rt env w keyword platform failed reason) =
     (case keyword of
        Some k \<Rightarrow> if failed \<and> k \<noteq> [] then snd (plugin_fallbackWebSearch rt env w k platform) else []
      | None \<Rightarrow> [])"
  by (auto simp: plugin_finish_def Let_def split: prod.splits option.splits)

lemma mcp_try_calls:
  "snd (mcp_try rt env w t args) =
     (if TIKHUB_API_KEY env = [] then [] else [TikhubCall (mcp_tikhub_request rt env t args)])"
  by (simp add: mcp_try_def Let_def)

lemma plugin_try_calls:
  "snd (plugin_try rt env w t args) = [TikhubCall (plugin_tikhub_request rt env t args)]"
  by (simp add: plugin_try_def Let_def)

lemma mcp_calls:
  "snd (mcp_tikhub_call rt env w t raw) =
    (case mcp_normalize rt raw of
       Inl r \<Rightarrow> []
     | Inr args \<Rightarrow>
         (case extractKeyword args of
            Inl u \<Rightarrow> []
          | Inr keyword \<Rightarrow>
              snd (mcp_try rt env w t args) @
              (case fst (mcp_try rt env w t args) of
                 Returned r \<Rightarrow> []
               | FallsThrough failed reason \<Rightarrow>
                   snd (mcp_finish rt env w keyword (extractPlatform rt t) failed reason))))"
  by (auto simp: mcp_tikhub_call_def Let_def split: sum.splits prod.splits flow.splits)

lemma plugin_calls:
  "snd (plugin_tikhub_call rt env w t raw) =
    (case plugin_normalize rt raw of
       Inl r \<Rightarrow> []
     | Inr args \<Rightarrow>
         (case plugin_extractKeyword args of
            Inl u \<Rightarrow> []
          | Inr keyword \<Rightarrow>
              snd (plugin_try rt env w t args) @
              (case fst (plugin_try rt env w t args) of
                 Returned r \<Rightarrow> []
               | FallsThrough failed reason \<Rightarrow>
                   snd (plugin_finish rt env w keyword (plugin_extractPlatform rt t) failed reason))))"
  by (auto simp: plugin_tikhub_call_def Let_def split: sum.splits prod.splits flow.splits)

lemma mcp_search_iff:
  "(\<exists>r. SearchCall r \<in> set (snd (mcp_tikhub_call rt env w t raw))) \<longleftrightarrow>
   (\<exists>args k reason. mcp_normalize rt raw = Inr args \<and> extractKeyword args = Inr (Some k)
       \<and> fst (mcp_try rt env w t args) = FallsThrough True reason)"
proof (cases "mcp_normalize rt raw")
  case (Inl r)
  then show ?thesis by (simp add: mcp_calls)
next
  case n: (Inr args)
  show ?thesis
  proof (cases "extractKeyword args")
    case (Inl u)
    with n show ?thesis by (simp add: mcp_calls)
  next
    case k: (Inr keyword)
    show ?thesis
    proof (cases "fst (mcp_try rt env w t args)")
      case (Returned r)
      with n k show ?thesis by (simp add: mcp_calls mcp_try_calls)
    next
      case (FallsThrough failed reason)
      with n k extractKeyword_nonempty [of args] show ?thesis
        by (cases keyword)
           (auto simp: mcp_calls mcp_try_calls mcp_finish_calls fallbackWebSearch_calls)
    qed
  qed
qed

lemma plugin_search_iff:
  "(\<exists>r. SearchCall r \<in> set (snd (plugin_tikhub_call rt env w t raw))) \<longleftrightarrow>
   (\<exists>args k reason. plugin_normalize rt raw = Inr args
       \<and> plugin_extractKeyword args = Inr (Some k)
       \<and> fst (plugin_try rt env w t args) = FallsThrough True reason)"
proof (cases "plugin_normalize rt raw")
  case (Inl r)
  then show ?thesis by (simp add: plugin_calls)
next
  case n: (Inr args)
  show ?thesis
  proof (cases "plugin_extractKeyword args")
    case (Inl u)
    with n show ?thesis by (simp add: plugin_calls)
  next
    case k: (Inr keyword)
    show ?thesis
    proof (cases "fst (plugin_try rt env w t args)")
      case (Returned r)
      with n k show ?thesis by (simp add: plugin_calls plugin_try_calls)
    next
      case (FallsThrough failed reason)
      with n k extractKeyword_nonempty [of args] show ?thesis
        by (cases keyword)
           (auto simp: plugin_calls plugin_try_calls plugin_finish_calls
              plugin_fallbackWebSearch_calls plugin_extractKeyword_eq)
    qed
  qed
qed

lemma mcp_search_only_last: "search_only_last (snd (mcp_tikhub_call rt env w t raw))"
  by (simp add: mcp_calls mcp_try_calls mcp_finish_calls fallbackWebSearch_calls
      split: sum.splits option.splits flow.splits)

lemma plugin_search_only_last: "search_only_last (snd (plugin_tikhub_call rt env w t raw))"
  by (simp add: plugin_calls plugin_try_calls plugin_finish_calls
      plugin_fallbackWebSearch_calls split: sum.splits option.splits flow.splits)

lemma normalize_agree:
  "(mcp_normalize rt raw = Inr args) = (plugin_normalize rt raw = Inr args)"
  by (simp add: mcp_normalize_def plugin_normalize_def split: option.splits)

lemma ToString_primitive: "\<not> is_object v \<Longrightarrow> \<exists>s. ToString rt v = Some s"
  by (cases v) simp_all

lemma plugin_result_lines_eq: "plugin_result_lines rt i rs = result_lines rt i rs"
  by (induction rs arbitrary: i) simp_all

lemma join_Cons: "join sep (x # xs) = x @ concat (map (\<lambda>s. sep @ s) xs)"
  by (simp add: join_def)

lemma nullish_isEmptyData: "nullish v \<Longrightarrow> isEmptyData v"
  by (cases v) simp_all

lemma is_object_truthy: "is_object v \<Longrightarrow> truthy v"
  by (cases v) simp_all

section \<open>The scenario of the specification on the mock\<close>

lemma scenario_keyword: "extractKeyword scenario_args = Inr (Some (js ''AI''))"
  by (simp add: extractKeyword_def scenario_args_def field_def js_def)

lemma scenario_platform: "extractPlatform rt scenario_tool = Some (js ''TikTok'')"
  by (simp add: extractPlatform_def scenario_tool_def PLATFORM_NAMES_def js_def)

lemma scenario_normalize: "mcp_normalize rt scenario_args = Inr scenario_args"
  by (simp add: mcp_normalize_def scenario_args_def)

lemma scenario_plugin_normalize: "plugin_normalize rt scenario_args = Inr scenario_args"
  by (simp add: plugin_normalize_def scenario_args_def)

lemma empty_listing_classified:
  "mcp_classify rt tool (Json empty_listing) =
     FallsThrough True (JStr (tool @ js '' returned empty data (platform anti-bot)''))"
  by (simp add: mcp_classify_def empty_listing_def field_def Let_def has_key_def
      listing_keys_def metadata_keys_def js_def)

lemma mock_key: "TIKHUB_API_KEY mock_env \<noteq> []"
  by (simp add: mock_env_def js_def)

lemma scenario_mcp_calls:
  "snd (mcp_tikhub_call rt mock_env (mock_world (Json empty_listing) fb)
         scenario_tool scenario_args) =
     [TikhubCall (mcp_tikhub_request rt mock_env scenario_tool scenario_args),
      SearchCall (search_request rt mock_env (js ''TikTok AI'') None)]"
  using mock_key
  by (simp add: mcp_calls scenario_normalize scenario_keyword mcp_try_def Let_def
      mock_world_def empty_listing_classified mcp_finish_calls fallbackWebSearch_calls
      scenario_platform fallback_query_def js_def)

lemma scenario_plugin_calls:
  "snd (plugin_tikhub_call rt mock_env (mock_world (Json empty_listing) fb)
         scenario_tool scenario_args) =
     [TikhubCall (mcp_tikhub_request rt mock_env scenario_tool scenario_args),
      SearchCall (search_request rt mock_env (js ''TikTok AI'') (Some 28000))]"
  by (simp add: plugin_calls scenario_plugin_normalize plugin_extractKeyword_eq
      scenario_keyword plugin_try_def Let_def plugin_classify_eq plugin_tikhub_request_eq
      mock_world_def empty_listing_classified plugin_finish_calls
      plugin_fallbackWebSearch_calls plugin_extractPlatform_eq
      scenario_platform fallback_query_def js_def)

lemma no_keyword_mcp_calls:
  "snd (mcp_tikhub_call rt mock_env (mock_world (Json empty_listing) fb)
         scenario_tool (JObj [(js ''count'', JNum 3)])) =
     [TikhubCall (mcp_tikhub_request rt mock_env scenario_tool
        (JObj [(js ''count'', JNum 3)]))]"
  using mock_key
  by (simp add: mcp_calls mcp_normalize_def extractKeyword_def field_def mcp_try_def Let_def
      mock_world_def empty_listing_classified mcp_finish_calls js_def)

section \<open>When the fallback search is invoked\<close>

text \<open>
  Claim C1. In both hosts the dispatch issues a search request if and only if the
  arguments were normalized, a keyword was extracted from them, and the primary
  attempt fell through as failed (\<open>tikhubFailed\<close> with its \<open>failReason\<close>); so never
  after a primary attempt that returned a success, and never without a keyword.
  A search request is the last request of the dispatch: the primary request, when
  one is issued, precedes it, and its outcome is classified by then.
\<close>

theorem fallback_iff_failure_and_keyword:
  "((\<exists>r. SearchCall r \<in> set (snd (mcp_tikhub_call rt env w t raw))) \<longleftrightarrow>
      (\<exists>args k reason. mcp_normalize rt raw = Inr args \<and> extractKeyword args = Inr (Some k)
          \<and> fst (mcp_try rt env w t args) = FallsThrough True reason))
   \<and> ((\<exists>r. SearchCall r \<in> set (snd (plugin_tikhub_call rt env w t raw))) \<longleftrightarrow>
      (\<exists>args k reason. plugin_normalize rt raw = Inr args
          \<and> plugin_extractKeyword args = Inr (Some k)
          \<and> fst (plugin_try rt env w t args) = FallsThrough True reason))
   \<and> search_only_last (snd (mcp_tikhub_call rt env w t raw))
   \<and> search_only_last (snd (plugin_tikhub_call rt env w t raw))"
  using mcp_search_iff [of rt env w t raw] plugin_search_iff [of rt env w t raw]
    mcp_search_only_last [of rt env w t raw] plugin_search_only_last [of rt env w t raw]
  by blast

text \<open>
  Scenarios A and C: on an empty listing the call with a keyword reaches the search
  service in both hosts, the call without one does not.
\<close>

theorem fallback_iff_failure_and_keyword_witness:
  "(\<exists>r. SearchCall r \<in> set (snd (mcp_tikhub_call mock_runtime mock_env
        (mock_world (Json empty_listing) (Json two_results)) scenario_tool scenario_args)))
   \<and> (\<exists>r. SearchCall r \<in> set (snd (plugin_tikhub_call mock_runtime mock_env
        (mock_world (Json empty_listing) (Json two_results)) scenario_tool scenario_args)))
   \<and> \<not> (\<exists>r. SearchCall r \<in> set (snd (mcp_tikhub_call mock_runtime mock_env
        (mock_world (Json empty_listing) (Json two_results)) scenario_tool
        (JObj [(js ''count'', JNum 3)]))))"
  using
    fallback_iff_failure_and_keyword [of mock_runtime mock_env
      "mock_world (Json empty_listing) (Json two_results)" scenario_tool scenario_args]
    fallback_iff_failure_and_keyword [of mock_runtime mock_env
      "mock_world (Json empty_listing) (Json two_results)" scenario_tool
      "JObj [(js ''count'', JNum 3)]"]
    scenario_keyword scenario_normalize [of mock_runtime]
    empty_listing_classified [of mock_runtime scenario_tool]
  apply (simp add: plugin_extractKeyword_eq mcp_try_def plugin_try_def plugin_classify_eq
      mock_env_def mock_world_def Let_def plugin_normalize_def mcp_normalize_def)
  apply (simp add: scenario_args_def extractKeyword_def field_def js_def)
  done

section \<open>A response with no \<open>result\<close> wrapper\<close>

lemma mcp_classify_no_wrapper:
  assumes "\<not> nullish data" and "\<not> truthy (js_get data (js ''error''))"
    and "\<not> is_object (js_get data (js ''result''))"
  shows "mcp_classify rt t (Json data) =
      Returned (Content
        (if length (JSON_stringify_2 rt data) > 50000
         then take 50000 (JSON_stringify_2 rt data) @ [0x000A, 0x000A] @ js ''... (truncated)''
         else JSON_stringify_2 rt data))"
  using assms by (simp add: mcp_classify_def Let_def)

lemma mock_stringify_2_empty_object: "JSON_stringify_2 mock_runtime (JObj []) = js ''{}''"
  by (simp add: mock_runtime_def)

text \<open>
  Claim C3 fails on the code: the empty object, with no \<open>error\<close> and no \<open>result\<close>,
  is empty under the emptiness test, and both hosts return its serialization
  \<open>{}\<close> as a success instead of the empty-data failure.
\<close>

theorem empty_whole_response_counterexample:
  "isEmptyData (JObj [])
   \<and> mcp_classify mock_runtime scenario_tool (Json (JObj [])) = Returned (Content (js ''{}''))
   \<and> mcp_classify mock_runtime scenario_tool (Json (JObj [])) \<noteq>
       FallsThrough True
         (JStr (scenario_tool @ js '' returned empty data (platform anti-bot)''))
   \<and> plugin_classify mock_runtime scenario_tool (Json (JObj [])) =
       Returned (Content (js ''{}''))"
  by (simp add: mcp_classify_def plugin_classify_def field_def Let_def
      mock_stringify_2_empty_object, simp add: js_def)

text \<open>
  Claim C3, amended. A response that completes at the transport level, is not
  \<open>null\<close>, has no truthy \<open>error\<close> and no \<open>result\<close> object is returned as a success in
  both hosts, whether or not it is empty: the text is the serialization of the
  whole response, cut to its first 50000 characters with the marker
  \<open>... (truncated)\<close> when it is longer. The emptiness test is not applied to it.
\<close>

theorem no_wrapper_returned_as_success:
  assumes "\<not> nullish data" and "\<not> truthy (js_get data (js ''error''))"
    and "\<not> is_object (js_get data (js ''result''))"
  shows "mcp_classify rt t (Json data) =
      Returned (Content
        (if length (JSON_stringify_2 rt data) > 50000
         then take 50000 (JSON_stringify_2 rt data) @ [0x000A, 0x000A] @ js ''... (truncated)''
         else JSON_stringify_2 rt data))
    \<and> plugin_classify rt t (Json data) = mcp_classify rt t (Json data)"
  using mcp_classify_no_wrapper [OF assms] by (simp add: plugin_classify_eq)

theorem no_wrapper_returned_as_success_witness:
  "\<not> nullish (JArr []) \<and> \<not> truthy (js_get (JArr []) (js ''error''))
   \<and> \<not> is_object (js_get (JArr []) (js ''result''))
   \<and> mcp_classify mock_runtime scenario_tool (Json (JArr [])) = Returned (Content (js ''[]''))
   \<and> plugin_classify mock_runtime scenario_tool (Json (JArr [])) =
       Returned (Content (js ''[]''))"
proof -
  have a: "\<not> nullish (JArr [])" by simp
  have b: "\<not> truthy (js_get (JArr []) (js ''error''))" by simp
  have c: "\<not> is_object (js_get (JArr []) (js ''result''))" by simp
  have d: "JSON_stringify_2 mock_runtime (JArr []) = js ''[]''"
    by (simp add: mock_runtime_def)
  from a b c no_wrapper_returned_as_success [OF a b c, of mock_runtime scenario_tool]
  show ?thesis by (simp add: d js_def)
qed

section \<open>Upstream error codes\<close>

text \<open>
  Claim C4 fails on the code at the code 0: \<open>code && code !== 200\<close> is false for
  it, so a response with \<open>result.code\<close> 0 around a payload is returned as a
  success in both hosts.
\<close>

theorem code_zero_counterexample:
  "js_get (js_get code_zero (js ''result'')) (js ''code'') = JNum 0
   \<and> mcp_classify mock_runtime scenario_tool (Json code_zero) =
       Returned (Content (js ''TikHub '' @ scenario_tool @ js '' result:'' @ [0x000A, 0x000A] @
         js ''{'' @ [0x000A] @ js ''  '' @ [0x0022] @ js ''id'' @ [0x0022] @ js '': 1'' @
         [0x000A] @ js ''}''))
   \<and> plugin_classify mock_runtime scenario_tool (Json code_zero) =
       mcp_classify mock_runtime scenario_tool (Json code_zero)"
  apply (simp add: plugin_classify_eq)
  apply (simp add: mcp_classify_def code_zero_def field_def Let_def has_key_def
      metadata_keys_def listing_keys_def mock_runtime_def join_def quoted_def decimal.simps
      numeral_2_eq_2 js_def)
  done

text \<open>
  Claim C4, amended. For a response that completes at the transport level, is not
  \<open>null\<close>, has no truthy \<open>error\<close> and whose \<open>result\<close> is an object with a numeric
  \<open>code\<close> other than 200: if the code is not 0, both hosts classify a failure.
  Its reason is \<open>{toolName} returned code {code}: {message or 'error'}\<close> whenever
  the message (or \<open>error\<close> in place of a falsy one) converts to a string, as every
  string, number, boolean and every object without a \<open>toString\<close> key does; when
  the conversion throws, the \<open>catch\<close> makes the reason the message of that
  TypeError. A code of 0 is treated as an absent code, so the response is an
  empty-data failure when \<open>result.data\<close> is empty and a success otherwise.
\<close>

theorem upstream_code_failure:
  assumes "\<not> nullish data" and "\<not> truthy (js_get data (js ''error''))"
    and "is_object (js_get data (js ''result''))"
    and "js_get (js_get data (js ''result'')) (js ''code'') = JNum c"
    and "c \<noteq> 200"
  shows "(c \<noteq> 0 \<longrightarrow>
      mcp_classify rt t (Json data) =
        FallsThrough True (JStr
          (case ToString rt
                  (if truthy (js_get (js_get data (js ''result'')) (js ''message''))
                   then js_get (js_get data (js ''result'')) (js ''message'')
                   else JStr (js ''error'')) of
             Some m \<Rightarrow> t @ js '' returned code '' @ Number_toString rt c @ js '': '' @ m
           | None \<Rightarrow> to_primitive_message rt)))
    \<and> (c = 0 \<and> isEmptyData (js_get (js_get data (js ''result'')) (js ''data'')) \<longrightarrow>
      mcp_classify rt t (Json data) =
        FallsThrough True (JStr (t @ js '' returned empty data (platform anti-bot)'')))
    \<and> (c = 0 \<and> \<not> isEmptyData (js_get (js_get data (js ''result'')) (js ''data'')) \<longrightarrow>
      (\<exists>text. mcp_classify rt t (Json data) = Returned (Content text)))
    \<and> plugin_classify rt t (Json data) = mcp_classify rt t (Json data)"
proof -
  from assms(3) have "truthy (js_get data (js ''result''))"
    by (rule is_object_truthy)
  with assms show ?thesis
    by (simp add: mcp_classify_def plugin_classify_eq Let_def split: option.splits)
qed

lemma decimal_400: "decimal 400 = js ''400''"
  by (simp add: decimal.simps js_def)

lemma decimal_500: "decimal 500 = js ''500''"
  by (simp add: decimal.simps js_def)

text \<open>
  Scenario B, code 400 with the message \<open>rate limited\<close>; and code 500 with a
  message that owns a \<open>toString\<close> key, where the reason is the TypeError's.
\<close>

theorem upstream_code_failure_witness:
  "mcp_classify mock_runtime scenario_tool (Json rate_limited) =
     FallsThrough True (JStr (scenario_tool @ js '' returned code 400: rate limited''))
   \<and> plugin_classify mock_runtime scenario_tool (Json rate_limited) =
     FallsThrough True (JStr (scenario_tool @ js '' returned code 400: rate limited''))
   \<and> mcp_classify mock_runtime scenario_tool (Json unprintable_message) =
     FallsThrough True (JStr (js ''Cannot convert object to primitive value''))
   \<and> plugin_classify mock_runtime scenario_tool (Json unprintable_message) =
     FallsThrough True (JStr (js ''Cannot convert object to primitive value''))"
proof -
  have a: "\<not> nullish rate_limited" by (simp add: rate_limited_def)
  have b: "\<not> truthy (js_get rate_limited (js ''error''))"
    by (simp add: rate_limited_def field_def js_def)
  have c: "is_object (js_get rate_limited (js ''result''))"
    by (simp add: rate_limited_def field_def js_def)
  have d: "js_get (js_get rate_limited (js ''result'')) (js ''code'') = JNum 400"
    by (simp add: rate_limited_def field_def js_def)
  have e: "js_get (js_get rate_limited (js ''result'')) (js ''message'') =
      JStr (js ''rate limited'')"
    by (simp add: rate_limited_def field_def js_def)
  have f: "Number_toString mock_runtime 400 = js ''400''"
    by (simp add: mock_runtime_def decimal_400)
  have a': "\<not> nullish unprintable_message" by (simp add: unprintable_message_def)
  have b': "\<not> truthy (js_get unprintable_message (js ''error''))"
    by (simp add: unprintable_message_def field_def js_def)
  have c': "is_object (js_get unprintable_message (js ''result''))"
    by (simp add: unprintable_message_def field_def js_def)
  have d': "js_get (js_get unprintable_message (js ''result'')) (js ''code'') = JNum 500"
    by (simp add: unprintable_message_def field_def js_def)
  have e': "js_get (js_get unprintable_message (js ''result'')) (js ''message'') =
      JObj [(js ''toString'', JNum 1)]"
    by (simp add: unprintable_message_def field_def js_def)
  have g: "to_primitive_message mock_runtime = js ''Cannot convert object to primitive value''"
    by (simp add: mock_runtime_def)
  from upstream_code_failure [OF a b c d, of mock_runtime scenario_tool] e f
  have 1: "mcp_classify mock_runtime scenario_tool (Json rate_limited) =
       FallsThrough True (JStr (scenario_tool @ js '' returned code 400: rate limited''))
     \<and> plugin_classify mock_runtime scenario_tool (Json rate_limited) =
       FallsThrough True (JStr (scenario_tool @ js '' returned code 400: rate limited''))"
    by (simp add: js_def)
  from upstream_code_failure [OF a' b' c' d', of mock_runtime scenario_tool] e' g
  have 2: "mcp_classify mock_runtime scenario_tool (Json unprintable_message) =
       FallsThrough True (JStr (js ''Cannot convert object to primitive value''))
     \<and> plugin_classify mock_runtime scenario_tool (Json unprintable_message) =
       FallsThrough True (JStr (js ''Cannot convert object to primitive value''))"
    by (simp add: has_key_def)
  from 1 2 show ?thesis by simp
qed

section \<open>Argument normalization\<close>

text \<open>
  Claim C5. In both hosts an argument value that is already an object is kept
  unchanged; an absent value and the empty string become the empty mapping (what
  \<open>JSON.parse("{}")\<close> returns); and a non-empty string that \<open>JSON.parse\<close> rejects
  ends the dispatch at once with the error \<open>Invalid arguments JSON string\<close>
  (an \<open>isError\<close> content in the stdio server, a thrown error in the plugin), with no
  request issued: no primary call and no fallback.
\<close>

theorem normalization_contract:
  "(is_object raw \<longrightarrow> mcp_normalize rt raw = Inr raw \<and> plugin_normalize rt raw = Inr raw)
   \<and> (JSON_parse rt (js ''{}'') = Some (JObj []) \<longrightarrow>
        mcp_normalize rt JUndefined = Inr (JObj []) \<and> mcp_normalize rt (JStr []) = Inr (JObj [])
        \<and> plugin_normalize rt JUndefined = Inr (JObj [])
        \<and> plugin_normalize rt (JStr []) = Inr (JObj []))
   \<and> (s \<noteq> [] \<and> JSON_parse rt s = None \<longrightarrow>
        mcp_tikhub_call rt env w t (JStr s) =
          (ErrorContent (js ''Invalid arguments JSON string''), [])
        \<and> plugin_tikhub_call rt env w t (JStr s) =
          (ThrowsError (js ''Invalid arguments JSON string''), []))"
  by (simp add: mcp_normalize_def plugin_normalize_def mcp_tikhub_call_def
      plugin_tikhub_call_def)

theorem normalization_contract_witness:
  "mcp_normalize mock_runtime scenario_args = Inr scenario_args
   \<and> plugin_normalize mock_runtime (JStr []) = Inr (JObj [])
   \<and> mcp_tikhub_call mock_runtime mock_env (mock_world (Json empty_listing) (Json two_results))
        scenario_tool (JStr (js ''{bad'')) =
          (ErrorContent (js ''Invalid arguments JSON string''), [])
   \<and> plugin_tikhub_call mock_runtime mock_env
        (mock_world (Json empty_listing) (Json two_results))
        scenario_tool (JStr (js ''{bad'')) =
          (ThrowsError (js ''Invalid arguments JSON string''), [])"
proof -
  have a: "is_object scenario_args" by (simp add: scenario_args_def)
  have b: "JSON_parse mock_runtime (js ''{}'') = Some (JObj [])"
    by (simp add: mock_runtime_def mock_parse_def)
  have c: "js ''{bad'' \<noteq> [] \<and> JSON_parse mock_runtime (js ''{bad'') = None"
    by (simp add: mock_runtime_def mock_parse_def js_def)
  from a b c normalization_contract [of scenario_args mock_runtime "js ''{bad''" mock_env
      "mock_world (Json empty_listing) (Json two_results)" scenario_tool]
  show ?thesis by simp
qed

section \<open>Timeouts\<close>

text \<open>
  Claim C6 fails on the code. In Scenario A the plugin issues its primary request
  with a timeout of 25000 ms and its search request with one of 28000 ms, above the
  25 seconds of the claim; the stdio server issues its search request with no
  timeout at all.
\<close>

theorem fallback_timeout_counterexample:
  "map (\<lambda>c. (is_search_call c, req_timeout (call_request c)))
     (snd (plugin_tikhub_call mock_runtime mock_env
        (mock_world (Json empty_listing) (Json two_results)) scenario_tool scenario_args))
     = [(False, Some 25000), (True, Some 28000)]
   \<and> map (\<lambda>c. (is_search_call c, req_timeout (call_request c)))
     (snd (mcp_tikhub_call mock_runtime mock_env
        (mock_world (Json empty_listing) (Json two_results)) scenario_tool scenario_args))
     = [(False, Some 25000), (True, None)]"
  by (simp add: scenario_mcp_calls scenario_plugin_calls mcp_tikhub_request_def
      search_request_def)

text \<open>
  Claim C6, amended. In both hosts every primary request carries an explicit
  timeout of 25000 ms; in the plugin every request of the fallback search carries
  an explicit timeout of 28000 ms.
\<close>

theorem request_timeouts:
  "(\<forall>c \<in> set (snd (mcp_tikhub_call rt env w t raw)).
      \<not> is_search_call c \<longrightarrow> req_timeout (call_request c) = Some 25000)
   \<and> (\<forall>c \<in> set (snd (plugin_tikhub_call rt env w t raw)).
      req_timeout (call_request c) = (if is_search_call c then Some 28000 else Some 25000))"
  by (auto simp: mcp_calls plugin_calls mcp_try_calls plugin_try_calls mcp_finish_calls
      plugin_finish_calls fallbackWebSearch_calls plugin_fallbackWebSearch_calls
      mcp_tikhub_request_def plugin_tikhub_request_def search_request_def
      split: sum.splits option.splits flow.splits)

text \<open>Scenario C in the stdio server: one request, the primary one, with 25000 ms.\<close>

theorem request_timeouts_witness:
  "map (\<lambda>c. (is_search_call c, req_timeout (call_request c)))
     (snd (mcp_tikhub_call mock_runtime mock_env
        (mock_world (Json empty_listing) (Json two_results))
        scenario_tool (JObj [(js ''count'', JNum 3)])))
     = [(False, Some 25000)]"
  using request_timeouts [of mock_runtime mock_env
      "mock_world (Json empty_listing) (Json two_results)" scenario_tool
      "JObj [(js ''count'', JNum 3)]"]
  by (simp add: no_keyword_mcp_calls)

section \<open>Arguments that are not a mapping\<close>

text \<open>
  Claim C7 at four inputs. The hosts declare \<open>args\<close> as a
  \<open>Record<string, unknown>\<close>, yet a string that parses to a JSON string or to an
  array is normalized to that string or array, an array given as such is kept,
  and the string \<open>null\<close> is normalized to \<open>null\<close>, on which \<open>extractKeyword\<close>
  throws a TypeError before any request.
\<close>

theorem normalized_arguments_not_a_mapping:
  "mcp_normalize mock_runtime (JStr ([0x0022] @ js ''AI'' @ [0x0022])) = Inr (JStr (js ''AI''))
   \<and> plugin_normalize mock_runtime (JStr (js ''[1,2]'')) = Inr (JArr [JNum 1, JNum 2])
   \<and> mcp_normalize mock_runtime (JArr [JNum 1, JNum 2]) = Inr (JArr [JNum 1, JNum 2])
   \<and> mcp_normalize mock_runtime (JStr (js ''null'')) = Inr JNull
   \<and> mcp_tikhub_call mock_runtime mock_env
        (mock_world (Json empty_listing) (Json two_results)) scenario_tool
        (JStr (js ''null'')) = (ThrowsTypeError, [])
   \<and> plugin_tikhub_call mock_runtime mock_env
        (mock_world (Json empty_listing) (Json two_results)) scenario_tool
        (JStr (js ''null'')) = (ThrowsTypeError, [])"
  by (simp add: mcp_normalize_def plugin_normalize_def mcp_tikhub_call_def
      plugin_tikhub_call_def extractKeyword_def plugin_extractKeyword_def
      mock_runtime_def mock_parse_def js_def)

section \<open>The fallback search\<close>

lemma fallbackWebSearch_result:
  "fst (fallbackWebSearch rt env w k p) =
    (case search_endpoint w (search_request rt env (fallback_query k p) None) of
       Json d \<Rightarrow>
         (case resp_results d of
            None \<Rightarrow> None
          | Some rs \<Rightarrow>
              if rs = [] then None
              else Some (join [0x000A]
                ([fallback_marker,
                  js ''Search: '' @ [0x0022] @ resp_query d @ [0x0022] @ js '' ('' @
                    Number_toString rt (real (length rs)) @ js '' results via '' @
                    resp_provider d @ js '')'',
                  []] @ result_lines rt 0 rs)))
     | _ \<Rightarrow> None)"
  by (simp add: fallbackWebSearch_def api_def Let_def case_prod_unfold search_request_def
      search_body_def fallback_query_def
      split: option.splits fetch_outcome.splits)

lemma plugin_fallbackWebSearch_result:
  "fst (plugin_fallbackWebSearch rt env w k p) =
    (case search_endpoint w (search_request rt env (fallback_query k p) (Some 28000)) of
       Json d \<Rightarrow>
         (case resp_results d of
            None \<Rightarrow> None
          | Some rs \<Rightarrow>
              if rs = [] then None
              else Some (join [0x000A]
                ([fallback_marker,
                  js ''Search: '' @ [0x0022] @ resp_query d @ [0x0022] @ js '' ('' @
                    Number_toString rt (real (length rs)) @ js '' results via '' @
                    resp_provider d @ js '')'',
                  []] @ result_lines rt 0 rs)))
     | _ \<Rightarrow> None)"
  by (simp add: plugin_fallbackWebSearch_def apiCall_def Let_def case_prod_unfold
      search_request_def fallback_query_def fallback_marker_def
      plugin_result_lines_eq
      split: option.splits fetch_outcome.splits)

lemma fallbackWebSearch_unavailable:
  "unavailable (search_endpoint w (search_request rt env (fallback_query k p) None))
     \<Longrightarrow> fst (fallbackWebSearch rt env w k p) = None"
  by (cases "search_endpoint w (search_request rt env (fallback_query k p) None)")
     (auto simp: fallbackWebSearch_result split: option.splits)

lemma fallbackWebSearch_available:
  "\<not> unavailable (search_endpoint w (search_request rt env (fallback_query k p) None))
     \<Longrightarrow> \<exists>rest. fst (fallbackWebSearch rt env w k p) = Some (fallback_marker @ rest)"
  by (cases "search_endpoint w (search_request rt env (fallback_query k p) None)")
     (auto simp: fallbackWebSearch_result join_Cons split: option.splits)

lemma plugin_fallbackWebSearch_unavailable:
  "unavailable (search_endpoint w (search_request rt env (fallback_query k p) (Some 28000)))
     \<Longrightarrow> fst (plugin_fallbackWebSearch rt env w k p) = None"
  by (cases "search_endpoint w (search_request rt env (fallback_query k p) (Some 28000))")
     (auto simp: plugin_fallbackWebSearch_result split: option.splits)

lemma plugin_fallbackWebSearch_available:
  "\<not> unavailable (search_endpoint w (search_request rt env (fallback_query k p) (Some 28000)))
     \<Longrightarrow> \<exists>rest. fst (plugin_fallbackWebSearch rt env w k p) =
           Some (fallback_marker @ rest)"
  by (cases "search_endpoint w (search_request rt env (fallback_query k p) (Some 28000))")
     (auto simp: plugin_fallbackWebSearch_result join_Cons split: option.splits)

text \<open>
  Claim C8. In both hosts \<open>fallbackWebSearch\<close> issues exactly one request,
  \<open>POST /search\<close> with result count 5, enrichment on and 5000 characters per
  page, whose query is the platform label, a space and the keyword when there is
  a label, and the keyword alone when there is none. It returns \<open>null\<close> (\<open>None\<close>),
  and throws nothing, whenever the request throws or times out, answers with an
  error status or a body that is not JSON, or returns no results; in every other
  case it returns a text that starts with the fallback marker.
\<close>

theorem fallbackWebSearch_contract:
  "snd (fallbackWebSearch rt env w k p) =
     [SearchCall (search_request rt env (fallback_query k p) None)]
   \<and> snd (plugin_fallbackWebSearch rt env w k p) =
     [SearchCall (search_request rt env (fallback_query k p) (Some 28000))]
   \<and> (l \<noteq> [] \<longrightarrow> fallback_query k (Some l) = l @ js '' '' @ k)
   \<and> fallback_query k None = k
   \<and> (unavailable (search_endpoint w (search_request rt env (fallback_query k p) None)) \<longrightarrow>
        fst (fallbackWebSearch rt env w k p) = None)
   \<and> (unavailable (search_endpoint w
          (search_request rt env (fallback_query k p) (Some 28000))) \<longrightarrow>
        fst (plugin_fallbackWebSearch rt env w k p) = None)
   \<and> (\<not> unavailable (search_endpoint w (search_request rt env (fallback_query k p) None)) \<longrightarrow>
        (\<exists>rest. fst (fallbackWebSearch rt env w k p) = Some (fallback_marker @ rest)))
   \<and> (\<not> unavailable (search_endpoint w
          (search_request rt env (fallback_query k p) (Some 28000))) \<longrightarrow>
        (\<exists>rest. fst (plugin_fallbackWebSearch rt env w k p) = Some (fallback_marker @ rest)))"
proof -
  have q1: "l \<noteq> [] \<longrightarrow> fallback_query k (Some l) = l @ js '' '' @ k"
    by (simp add: fallback_query_def)
  have q2: "fallback_query k None = k"
    by (simp add: fallback_query_def)
  show ?thesis
    using q1 q2 fallbackWebSearch_calls [of rt env w k p]
      plugin_fallbackWebSearch_calls [of rt env w k p]
      fallbackWebSearch_unavailable [of w rt env k p]
      plugin_fallbackWebSearch_unavailable [of w rt env k p]
      fallbackWebSearch_available [of w rt env k p]
      plugin_fallbackWebSearch_available [of w rt env k p]
    by blast
qed

text \<open>
  Scenario A, the search itself: the query is \<open>TikTok AI\<close>, two results are
  rendered under the marker; and a search that times out is unavailable.
\<close>

theorem fallbackWebSearch_contract_witness:
  "fallbackWebSearch mock_runtime mock_env (mock_world (Json empty_listing) (Json two_results))
       (js ''AI'') (Some (js ''TikTok'')) =
     (Some (join [0x000A]
        [fallback_marker,
         js ''Search: '' @ [0x0022] @ js ''TikTok AI'' @ [0x0022] @
           js '' (2 results via tavily)'',
         [],
         js ''1. A'', js ''   http://a'', js ''   s'', [],
         js ''2. B'', js ''   http://b'', [], js ''   --- Page Content ---'', js ''   c'', []]),
      [SearchCall (search_request mock_runtime mock_env (js ''TikTok AI'') None)])
   \<and> fst (plugin_fallbackWebSearch mock_runtime mock_env
       (mock_world (Json empty_listing) (FetchThrows (js ''The operation timed out.'')))
       (js ''AI'') None) = None"
proof -
  have q: "fallback_query (js ''AI'') (Some (js ''TikTok'')) = js ''TikTok AI''"
    by (simp add: fallback_query_def js_def)
  have f: "fst (fallbackWebSearch mock_runtime mock_env
       (mock_world (Json empty_listing) (Json two_results))
       (js ''AI'') (Some (js ''TikTok''))) =
     Some (join [0x000A]
        [fallback_marker,
         js ''Search: '' @ [0x0022] @ js ''TikTok AI'' @ [0x0022] @
           js '' (2 results via tavily)'',
         [],
         js ''1. A'', js ''   http://a'', js ''   s'', [],
         js ''2. B'', js ''   http://b'', [], js ''   --- Page Content ---'', js ''   c'', []])"
    by (simp add: fallbackWebSearch_result mock_world_def two_results_def mock_runtime_def
        decimal.simps js_def)
  from fallbackWebSearch_contract [of mock_runtime mock_env
      "mock_world (Json empty_listing) (Json two_results)" "js ''AI''" "Some (js ''TikTok'')"]
    fallbackWebSearch_contract [of mock_runtime mock_env
      "mock_world (Json empty_listing) (FetchThrows (js ''The operation timed out.''))"
      "js ''AI''" None]
    f q
  show ?thesis
    by (simp add: prod_eq_iff mock_world_def)
qed

section \<open>The two hosts decide alike\<close>

text \<open>
  Claim C9. Where the plugin registers the tool (the TikHub key is configured),
  the two hosts agree for every tool name, argument value and remote answer: they
  normalize the arguments to the same value or both reject them, extract the same
  keyword, classify every outcome of the primary request alike (the same success
  text, or failure with the same reason), so the primary attempt ends alike, and
  one issues a search request exactly when the other does.
\<close>

theorem hosts_equivalent:
  assumes "plugin_registers_tikhub_call env"
  shows "(mcp_normalize rt raw = Inr args \<longleftrightarrow> plugin_normalize rt raw = Inr args)
    \<and> plugin_extractKeyword args = extractKeyword args
    \<and> plugin_classify rt t outcome = mcp_classify rt t outcome
    \<and> fst (plugin_try rt env w t args) = fst (mcp_try rt env w t args)
    \<and> ((\<exists>r. SearchCall r \<in> set (snd (plugin_tikhub_call rt env w t raw))) \<longleftrightarrow>
        (\<exists>r. SearchCall r \<in> set (snd (mcp_tikhub_call rt env w t raw))))"
proof -
  from assms have key: "TIKHUB_API_KEY env \<noteq> []"
    by (simp add: plugin_registers_tikhub_call_def)
  have "(\<exists>r. SearchCall r \<in> set (snd (plugin_tikhub_call rt env w t raw))) \<longleftrightarrow>
        (\<exists>r. SearchCall r \<in> set (snd (mcp_tikhub_call rt env w t raw)))"
    unfolding mcp_search_iff plugin_search_iff plugin_extractKeyword_eq
      plugin_try_eq [OF key] normalize_agree ..
  then show ?thesis
    by (simp add: normalize_agree plugin_extractKeyword_eq plugin_classify_eq
        plugin_try_eq [OF key])
qed

text \<open>Scenario A in both hosts: the same empty-data failure.\<close>

theorem hosts_equivalent_witness:
  "plugin_registers_tikhub_call mock_env
   \<and> fst (plugin_try mock_runtime mock_env (mock_world (Json empty_listing) (Json two_results))
        scenario_tool scenario_args) =
       FallsThrough True
         (JStr (scenario_tool @ js '' returned empty data (platform anti-bot)''))
   \<and> fst (mcp_try mock_runtime mock_env (mock_world (Json empty_listing) (Json two_results))
        scenario_tool scenario_args) =
       FallsThrough True
         (JStr (scenario_tool @ js '' returned empty data (platform anti-bot)''))"
proof -
  have k: "plugin_registers_tikhub_call mock_env"
    by (simp add: plugin_registers_tikhub_call_def mock_key)
  have "fst (mcp_try mock_runtime mock_env (mock_world (Json empty_listing) (Json two_results))
        scenario_tool scenario_args) =
       FallsThrough True
         (JStr (scenario_tool @ js '' returned empty data (platform anti-bot)''))"
    using mock_key
    by (simp add: mcp_try_def Let_def mock_world_def empty_listing_classified)
  with k hosts_equivalent [OF k, of mock_runtime scenario_args scenario_args scenario_tool
      "Json empty_listing" "mock_world (Json empty_listing) (Json two_results)"]
  show ?thesis by simp
qed

section \<open>The size of a success text\<close>

text \<open>
  Claim C10. When the primary attempt returns a success, in either host, the
  outcome was a JSON body and the text is bounded. Under a \<open>result\<close> object the
  text is \<open>TikHub {toolName} result:\<close>, an empty line, and the serialization of
  \<open>result.data\<close>; with no \<open>result\<close> object it is the serialization of the whole
  body. A serialization longer than 50000 characters is cut to exactly its first
  50000 and followed by the fixed marker of its branch; a shorter one is kept
  whole.
\<close>

theorem success_text_bounded:
  assumes "mcp_classify rt t outcome = Returned r"
  shows "(\<exists>data. outcome = Json data \<and>
      (if is_object (js_get data (js ''result''))
       then r = Content (js ''TikHub '' @ t @ js '' result:'' @ [0x000A, 0x000A] @
              (if length (JSON_stringify_2 rt (js_get (js_get data (js ''result'')) (js ''data'')))
                    > 50000
               then take 50000
                      (JSON_stringify_2 rt (js_get (js_get data (js ''result'')) (js ''data''))) @
                    [0x000A, 0x000A] @ js ''... (truncated, result too large)''
               else JSON_stringify_2 rt (js_get (js_get data (js ''result'')) (js ''data''))))
       else r = Content
              (if length (JSON_stringify_2 rt data) > 50000
               then take 50000 (JSON_stringify_2 rt data) @
                    [0x000A, 0x000A] @ js ''... (truncated)''
               else JSON_stringify_2 rt data)))
    \<and> (\<exists>text. r = Content text \<and> length text \<le> length t + 50052)
    \<and> plugin_classify rt t outcome = Returned r"
proof (cases outcome)
  case (Json data)
  show ?thesis
  proof (cases "is_object (js_get data (js ''result''))")
    case True
    with assms Json is_object_truthy [OF True] nullish_isEmptyData
    show ?thesis
      by (auto simp: mcp_classify_def plugin_classify_eq Let_def js_def
          split: if_splits option.splits)
  next
    case False
    with assms Json show ?thesis
      by (auto simp: mcp_classify_def plugin_classify_eq Let_def js_def split: if_splits)
  qed
qed (use assms in \<open>simp_all add: mcp_classify_def\<close>)

text \<open>
  A one-element payload is returned whole under its header; a body that is one
  string of 50001 characters serializes to 50003 and is cut to 50000.
\<close>

theorem success_text_bounded_witness:
  "mcp_classify mock_runtime scenario_tool (Json one_item) =
     Returned (Content (js ''TikHub tiktok_web_fetch_search_video result:'' @ [0x000A, 0x000A] @
       js ''['' @ [0x000A] @ js ''  1'' @ [0x000A] @ js '']''))
   \<and> plugin_classify mock_runtime scenario_tool (Json one_item) =
     Returned (Content (js ''TikHub tiktok_web_fetch_search_video result:'' @ [0x000A, 0x000A] @
       js ''['' @ [0x000A] @ js ''  1'' @ [0x000A] @ js '']''))
   \<and> plugin_classify mock_runtime scenario_tool (Json (JStr (replicate 50001 0x0061))) =
     Returned (Content ([0x0022] @ replicate 49999 0x0061 @ [0x000A, 0x000A] @
       js ''... (truncated)''))"
proof -
  have a: "mcp_classify mock_runtime scenario_tool (Json one_item) =
     Returned (Content (js ''TikHub tiktok_web_fetch_search_video result:'' @ [0x000A, 0x000A] @
       js ''['' @ [0x000A] @ js ''  1'' @ [0x000A] @ js '']''))"
    by (simp add: mcp_classify_def one_item_def field_def Let_def scenario_tool_def
      mock_runtime_def join_def decimal.simps numeral_2_eq_2 js_def)
  have b: "mcp_classify mock_runtime scenario_tool (Json (JStr (replicate 50001 0x0061))) =
     Returned (Content ([0x0022] @ replicate 49999 0x0061 @ [0x000A, 0x000A] @
       js ''... (truncated)''))"
    by (simp add: mcp_classify_def Let_def mock_runtime_def quoted_def take_Cons')
  from success_text_bounded [OF a] success_text_bounded [OF b] a b show ?thesis by simp
qed

end
